theory Spec2Isabelle
  imports Complex_Main "HOL-Library.Log_Nat"
begin

section \<open>Numbers\<close>

text \<open>
  Every quantity of the simulator is a TypeScript \<open>number\<close>, an IEEE 754 double. A number
  is a finite value, one of the two infinities or NaN. The finite values that occur are
  the doubles: every arithmetic operation rounds its exact result to the nearest double,
  ties to the even significand, and gives an infinity on overflow (\<open>rnd\<close> below). Division
  by zero, arithmetic on infinities and comparisons with NaN follow the language: \<open>x / 0\<close>
  is an infinity with the sign of \<open>x\<close>, \<open>0 / 0\<close> is NaN, every comparison with NaN is
  false. The one thing left out is the sign of zero: \<open>-0\<close> and \<open>+0\<close> are the same number
  here (the form handlers store \<open>parseFloat(...) || 0\<close>, which is never \<open>-0\<close>, and the
  two zeros compare equal), so a quotient \<open>x / 0\<close> takes its sign from \<open>x\<close> alone.
\<close>

datatype number = Fin real | PInf | NInf | NaN

text \<open>Rounding of a real to the nearest integer, a tie going to the even one.\<close>

definition roundEven :: "real \<Rightarrow> int" where
  "roundEven r =
     (let n = \<lfloor>r\<rfloor>; d = r - of_int n
      in if d < 1 / 2 then n else if 1 / 2 < d then n + 1 else if even n then n else n + 1)"

text \<open>
  Rounding of an exact result to a double. The magnitude is measured in units of the
  smallest subnormal \<open>2^-1074\<close> (\<open>scaled\<close>); the spacing of the doubles around it, in the
  same units, is \<open>2^(b - 53)\<close> where \<open>b\<close> is the number of bits of its integer part, and 1
  below \<open>2^53\<close> units (\<open>quantum\<close>); the magnitude is rounded to a multiple of the spacing
  (\<open>rounded\<close>); a rounded magnitude of \<open>2^1024\<close> or more is an overflow.
\<close>

definition scale :: real where
  "scale = 2 ^ 1074"

definition huge :: real where
  "huge = 2 ^ 1024"

definition scaled :: "real \<Rightarrow> real" where
  "scaled x = \<bar>x\<bar> * scale"

definition quantum :: "real \<Rightarrow> real" where
  "quantum x = 2 ^ nat (bitlen \<lfloor>scaled x\<rfloor> - 53)"

definition rounded :: "real \<Rightarrow> real" where
  "rounded x = of_int (roundEven (scaled x / quantum x)) * quantum x"

definition rnd :: "real \<Rightarrow> number" where
  "rnd x =
     (if huge * scale \<le> rounded x then (if 0 < x then PInf else NInf)
      else Fin (sgn x * rounded x / scale))"

text \<open>A decimal literal of the source denotes the double nearest to it.\<close>

definition lit :: "real \<Rightarrow> number" where
  "lit x = rnd x"

fun nneg :: "number \<Rightarrow> number" where
  "nneg (Fin a) = Fin (- a)"
| "nneg PInf = NInf"
| "nneg NInf = PInf"
| "nneg NaN = NaN"

fun nadd :: "number \<Rightarrow> number \<Rightarrow> number" where
  "nadd NaN y = NaN"
| "nadd x NaN = NaN"
| "nadd (Fin a) (Fin b) = rnd (a + b)"
| "nadd PInf NInf = NaN"
| "nadd NInf PInf = NaN"
| "nadd PInf y = PInf"
| "nadd x PInf = PInf"
| "nadd NInf y = NInf"
| "nadd x NInf = NInf"

definition nsub :: "number \<Rightarrow> number \<Rightarrow> number" where
  "nsub x y = nadd x (nneg y)"

fun nmul :: "number \<Rightarrow> number \<Rightarrow> number" where
  "nmul NaN y = NaN"
| "nmul x NaN = NaN"
| "nmul (Fin a) (Fin b) = rnd (a * b)"
| "nmul (Fin a) y = (if a = 0 then NaN else if 0 < a then y else nneg y)"
| "nmul x (Fin b) = (if b = 0 then NaN else if 0 < b then x else nneg x)"
| "nmul PInf y = y"
| "nmul NInf y = nneg y"

fun ndiv :: "number \<Rightarrow> number \<Rightarrow> number" where
  "ndiv NaN y = NaN"
| "ndiv x NaN = NaN"
| "ndiv (Fin a) (Fin b) =
     (if b = 0 then (if a = 0 then NaN else if 0 < a then PInf else NInf)
      else rnd (a / b))"
| "ndiv (Fin a) y = Fin 0"
| "ndiv x (Fin b) = (if b < 0 then nneg x else x)"
| "ndiv x y = NaN"

text \<open>The comparisons \<open><\<close> and \<open><=\<close>; \<open>a > b\<close> is written \<open>nlt b a\<close>.\<close>

fun nlt :: "number \<Rightarrow> number \<Rightarrow> bool" where
  "nlt NaN y = False"
| "nlt x NaN = False"
| "nlt (Fin a) (Fin b) = (a < b)"
| "nlt x NInf = False"
| "nlt NInf y = True"
| "nlt PInf y = False"
| "nlt x PInf = True"

fun nle :: "number \<Rightarrow> number \<Rightarrow> bool" where
  "nle NaN y = False"
| "nle x NaN = False"
| "nle (Fin a) (Fin b) = (a \<le> b)"
| "nle NInf y = True"
| "nle x PInf = True"
| "nle x y = False"

text \<open>Truthiness of a number: \<open>!x\<close> holds exactly for zero and NaN.\<close>

fun truthy :: "number \<Rightarrow> bool" where
  "truthy (Fin a) = (a \<noteq> 0)"
| "truthy NaN = False"
| "truthy x = True"

text \<open>\<open>Math.min\<close> of two numbers: NaN if either is NaN.\<close>

fun Math_min :: "number \<Rightarrow> number \<Rightarrow> number" where
  "Math_min NaN y = NaN"
| "Math_min x NaN = NaN"
| "Math_min x y = (if nle x y then x else y)"

fun isFinite :: "number \<Rightarrow> bool" where
  "isFinite (Fin a) = True"
| "isFinite x = False"

section \<open>Data model (App.tsx)\<close>

record StreamData =
  vazao :: number
  concentracao :: number
  densidade :: number

record BalanceResults =
  alimentacao :: StreamData
  concentrado :: StreamData
  rejeito :: StreamData
  recuperacao :: number
  razaoConcentracao :: number
  eficienciaSeparacao :: number

record EconomicData =
  capex :: number
  opexAnual :: number
  receita :: number
  vidaUtil :: number
  taxaDesconto :: number
  custoEnergia :: number
  custoMaodeObra :: number
  custoManutencao :: number

record EconomicResults =
  vpl :: number
  tir :: number
  payback :: number
  roi :: number
  custoTonelada :: number

record OptimizationParams =
  targetRecovery :: number
  maxDensity :: number
  minGrade :: number
  energyLimit :: number

text \<open>
  The entries of the error list. The source stores the Portuguese sentences; each
  constructor stands for one of them:
  \<^item> \<open>DadosAlimentacaoIncompletos\<close>: "Dados de alimentacao incompletos";
  \<^item> \<open>DadosConcentradoIncompletos\<close>: "Dados de concentrado incompletos";
  \<^item> \<open>DadosRejeitoIncompletos\<close>: "Dados de rejeito incompletos";
  \<^item> \<open>DadosInconsistentes\<close>: "Dados inconsistentes - resultados nao fisicos";
  \<^item> \<open>ExecuteSimulacao\<close>: "Execute uma simulacao e preencha os dados economicos antes
    de calcular";
  \<^item> \<open>OtimizacaoConcluida x\<close>: "Otimizacao concluida! Nova concentracao de alimentacao:
    x%" (the number is kept, its formatting with two decimals is not modelled).
\<close>

datatype message =
    DadosAlimentacaoIncompletos
  | DadosConcentradoIncompletos
  | DadosRejeitoIncompletos
  | DadosInconsistentes
  | ExecuteSimulacao
  | OtimizacaoConcluida number

text \<open>The state of the component \<open>App\<close> that the calculations read and write.\<close>

record App =
  circuitType :: string
  alimentacao :: StreamData
  concentrado :: StreamData
  rejeito :: StreamData
  results :: "BalanceResults option"
  errors :: "message list"
  economicData :: EconomicData
  economicResults :: "EconomicResults option"
  optimizationParams :: OptimizationParams
  simulationHistory :: "BalanceResults list"

definition initialApp :: App where
  "initialApp =
     \<lparr> circuitType = ''grinding'',
       alimentacao = \<lparr>vazao = Fin 0, concentracao = Fin 0, densidade = Fin 0\<rparr>,
       concentrado = \<lparr>vazao = Fin 0, concentracao = Fin 0, densidade = Fin 0\<rparr>,
       rejeito = \<lparr>vazao = Fin 0, concentracao = Fin 0, densidade = Fin 0\<rparr>,
       results = None,
       errors = [],
       economicData =
         \<lparr> capex = Fin 0, opexAnual = Fin 0, receita = Fin 0, vidaUtil = Fin 10,
           taxaDesconto = Fin 12, custoEnergia = lit 0.08, custoMaodeObra = Fin 50000,
           custoManutencao = Fin 25000 \<rparr>,
       economicResults = None,
       optimizationParams =
         \<lparr> targetRecovery = Fin 85, maxDensity = Fin 5, minGrade = Fin 60,
           energyLimit = Fin 15 \<rparr>,
       simulationHistory = [] \<rparr>"

section \<open>Mass balance: \<open>calculateBalance\<close>\<close>

text \<open>\<open>xs.slice(-n)\<close>: the last \<open>n\<close> elements, all of them when there are fewer.\<close>

definition slice_last :: "nat \<Rightarrow> 'a list \<Rightarrow> 'a list" where
  "slice_last n xs = drop (length xs - n) xs"

text \<open>The three validations, each pushing its message when it fails.\<close>

definition newErrors :: "App \<Rightarrow> message list" where
  "newErrors st =
     (if \<not> truthy (vazao (App.alimentacao st)) \<or> \<not> truthy (concentracao (App.alimentacao st))
         \<or> \<not> truthy (densidade (App.alimentacao st))
      then [DadosAlimentacaoIncompletos] else []) @
     (if \<not> truthy (concentracao (App.concentrado st)) \<or> \<not> truthy (densidade (App.concentrado st))
      then [DadosConcentradoIncompletos] else []) @
     (if \<not> truthy (concentracao (App.rejeito st)) \<or> \<not> truthy (densidade (App.rejeito st))
      then [DadosRejeitoIncompletos] else [])"

text \<open>The solved flow rates \<open>C = (F * (f - t)) / (c - t)\<close> and \<open>T = F - C\<close>.\<close>

definition solveC :: "App \<Rightarrow> number" where
  "solveC st =
     (let F = vazao (App.alimentacao st);
          f = concentracao (App.alimentacao st);
          c = concentracao (App.concentrado st);
          t = concentracao (App.rejeito st)
      in ndiv (nmul F (nsub f t)) (nsub c t))"

definition solveT :: "App \<Rightarrow> number" where
  "solveT st = nsub (vazao (App.alimentacao st)) (solveC st)"

text \<open>The record built after the physical check.\<close>

definition newResults :: "App \<Rightarrow> BalanceResults" where
  "newResults st =
     (let F = vazao (App.alimentacao st);
          f = concentracao (App.alimentacao st);
          c = concentracao (App.concentrado st);
          t = concentracao (App.rejeito st);
          C = solveC st;
          T = solveT st;
          recuperacao = nmul (ndiv (nmul C c) (nmul F f)) (Fin 100);
          razaoConcentracao = ndiv c f;
          eficienciaSeparacao =
            ndiv (nmul recuperacao (nsub c f)) (nmul c (nsub (Fin 100) f))
      in \<lparr> BalanceResults.alimentacao = App.alimentacao st,
           BalanceResults.concentrado =
             \<lparr>vazao = C, concentracao = c, densidade = densidade (App.concentrado st)\<rparr>,
           BalanceResults.rejeito =
             \<lparr>vazao = T, concentracao = t, densidade = densidade (App.rejeito st)\<rparr>,
           recuperacao = recuperacao,
           razaoConcentracao = razaoConcentracao,
           eficienciaSeparacao = eficienciaSeparacao \<rparr>)"

definition calculateBalance :: "App \<Rightarrow> App" where
  "calculateBalance st =
     (if length (newErrors st) > 0 then st\<lparr>errors := newErrors st\<rparr>
      else if nlt (solveC st) (Fin 0) \<or> nlt (solveT st) (Fin 0)
      then st\<lparr>errors := [DadosInconsistentes]\<rparr>
      else st\<lparr> results := Some (newResults st),
               errors := [],
               simulationHistory := slice_last 20 (simulationHistory st @ [newResults st]) \<rparr>)"

text \<open>
  Not in the source, used to state properties of several solves: a session of the user.
  Before each press of the button the three input forms may have been edited (the form
  handlers overwrite one field of one stream at a time), so each solve of a session comes
  with the three streams it reads.
\<close>

definition setStreams :: "StreamData \<Rightarrow> StreamData \<Rightarrow> StreamData \<Rightarrow> App \<Rightarrow> App" where
  "setStreams a c r st = st\<lparr>App.alimentacao := a, App.concentrado := c, App.rejeito := r\<rparr>"

fun solves :: "(StreamData \<times> StreamData \<times> StreamData) list \<Rightarrow> App \<Rightarrow> App" where
  "solves [] st = st"
| "solves ((a, c, r) # ins) st = solves ins (calculateBalance (setStreams a c r st))"

text \<open>A solve succeeds when it passes the validations and the physical check.\<close>

definition solveOk :: "App \<Rightarrow> bool" where
  "solveOk st =
     (newErrors st = [] \<and> \<not> (nlt (solveC st) (Fin 0) \<or> nlt (solveT st) (Fin 0)))"

section \<open>Examples: \<open>loadExample\<close>\<close>

definition loadExample :: "string \<Rightarrow> App \<Rightarrow> App" where
  "loadExample type st =
     (let st1 =
        (if type = ''iron-ore'' then
           st\<lparr> App.alimentacao := \<lparr>vazao = Fin 100, concentracao = lit 35.5, densidade = lit 3.8\<rparr>,
               App.concentrado := \<lparr>vazao = Fin 0, concentracao = lit 68.2, densidade = lit 4.8\<rparr>,
               App.rejeito := \<lparr>vazao = Fin 0, concentracao = lit 8.5, densidade = lit 2.9\<rparr>,
               circuitType := ''flotation'' \<rparr>
         else if type = ''copper'' then
           st\<lparr> App.alimentacao := \<lparr>vazao = Fin 50, concentracao = lit 0.85, densidade = lit 2.7\<rparr>,
               App.concentrado := \<lparr>vazao = Fin 0, concentracao = lit 28.5, densidade = lit 3.2\<rparr>,
               App.rejeito := \<lparr>vazao = Fin 0, concentracao = lit 0.12, densidade = lit 2.6\<rparr>,
               circuitType := ''flotation'' \<rparr>
         else if type = ''coal'' then
           st\<lparr> App.alimentacao := \<lparr>vazao = Fin 200, concentracao = lit 25.8, densidade = lit 1.6\<rparr>,
               App.concentrado := \<lparr>vazao = Fin 0, concentracao = lit 5.2, densidade = lit 1.3\<rparr>,
               App.rejeito := \<lparr>vazao = Fin 0, concentracao = lit 68.5, densidade = lit 2.1\<rparr>,
               circuitType := ''grinding'' \<rparr>
         else st)
      in st1\<lparr>results := None, errors := []\<rparr>)"

section \<open>Discounted cash flow: \<open>calculateEconomics\<close> of App.tsx\<close>




definition receitaAnual :: "BalanceResults \<Rightarrow> EconomicData \<Rightarrow> number" where
  "receitaAnual r ed =
     ndiv (nmul (nmul (vazao (BalanceResults.concentrado r)) (Fin 8760))
             (EconomicData.receita ed))
       (Fin 1000)"







section \<open>Grid search: \<open>optimizeParameters\<close>\<close>

text \<open>
  The effective concentrate assay \<open>Math.min(concentrado.concentracao,
  optimizationParams.minGrade)\<close>, the ordering test \<open>c > f && f > t\<close> and the recovery
  that the loop body computes for a candidate feed assay \<open>conc\<close>. The candidates are the
  integers 10, 12, ..., 40, which the additions \<open>conc += 2\<close> give exactly.
\<close>

definition effectiveConcentrado :: "App \<Rightarrow> number" where
  "effectiveConcentrado st =
     Math_min (concentracao (App.concentrado st)) (minGrade (optimizationParams st))"

definition ordered :: "App \<Rightarrow> nat \<Rightarrow> bool" where
  "ordered st conc =
     (nlt (Fin (real conc)) (effectiveConcentrado st)
      \<and> nlt (concentracao (App.rejeito st)) (Fin (real conc)))"

definition testRecuperacao :: "App \<Rightarrow> nat \<Rightarrow> number" where
  "testRecuperacao st conc =
     (let F = vazao (App.alimentacao st);
          f = Fin (real conc);
          c = effectiveConcentrado st;
          t = concentracao (App.rejeito st);
          C = ndiv (nmul F (nsub f t)) (nsub c t)
      in nmul (ndiv (nmul C c) (nmul F f)) (Fin 100))"

text \<open>One pass of the loop body over the pair \<open>(bestParams, bestRecovery)\<close>.\<close>

definition optStep :: "App \<Rightarrow> nat \<Rightarrow> StreamData \<times> number \<Rightarrow> StreamData \<times> number" where
  "optStep st conc best =
     (if ordered st conc
      then (let recuperacao = testRecuperacao st conc
            in if nlt (snd best) recuperacao
                  \<and> nle recuperacao (nadd (targetRecovery (optimizationParams st)) (Fin 5))
               then ((fst best)\<lparr>concentracao := Fin (real conc)\<rparr>, recuperacao)
               else best)
      else best)"

text \<open>The loop \<open>for (conc = 10; conc <= 40; conc += 2)\<close>.\<close>

function optLoop :: "App \<Rightarrow> nat \<Rightarrow> StreamData \<times> number \<Rightarrow> StreamData \<times> number" where
  "optLoop st conc best =
     (if conc \<le> 40 then optLoop st (conc + 2) (optStep st conc best) else best)"
  by pat_completeness auto
termination
  by (relation "measure (\<lambda>(st, conc, best). 41 - conc)") auto

definition optimizeParameters :: "App \<Rightarrow> App" where
  "optimizeParameters st =
     (let bestParams = fst (optLoop st 10 (App.alimentacao st, Fin 0))
      in st\<lparr> App.alimentacao := bestParams,
              errors := [OtimizacaoConcluida (concentracao bestParams)] \<rparr>)"

text \<open>
  Not in the source, following the words of the specification: the candidate feed assays
  from 10 to 40 in steps of 2, and the candidates that may win: the ordering holds, the
  recovery does not exceed \<open>targetRecovery + 5\<close> and, as the code has it, the recovery is
  greater than 0, the value that \<open>bestRecovery\<close> starts with.
\<close>

definition candidates :: "nat list" where
  "candidates = map (\<lambda>k. 10 + 2 * k) [0..<16]"


section \<open>Economic analysis: \<open>calculateEconomics\<close> of the component EconomicAnalysis\<close>

text \<open>
  The component receives the balance results as a property and keeps the form
  \<open>economicData\<close> and the computed \<open>economicResults\<close> as its state: the handler takes the
  property \<open>res\<close>, the form \<open>ed\<close> and the stored result \<open>prev\<close>, and returns the stored
  result after the call. It returns early, storing nothing, when there is no balance or
  the price is zero.
\<close>

record EconomicData_analysis =
  precoConcetrado :: number
  custoProcessamento :: number
  custoPerdaMineral :: number
  horasOperacao :: number

record Receita =
  diaria :: number
  mensal :: number
  anual :: number

record Custos =
  processamento :: number
  perdas :: number
  total :: number

record Lucro =
  diario :: number
  mensal :: number
  anual :: number

record Indicadores =
  receita_por_tonelada_concentrado :: number
  custo_por_tonelada_alimentacao :: number
  eficiencia_economica :: number

record EconomicResults_analysis =
  receita :: Receita
  custos :: Custos
  lucro :: Lucro
  margemLucro :: number
  indicadores :: Indicadores

definition receitaAnual_analysis :: "BalanceResults \<Rightarrow> EconomicData_analysis \<Rightarrow> number" where
  "receitaAnual_analysis r ed =
     nmul (nmul (vazao (BalanceResults.concentrado r)) (horasOperacao ed))
       (precoConcetrado ed)"

definition calculateEconomics_analysis ::
  "BalanceResults option \<Rightarrow> EconomicData_analysis \<Rightarrow> EconomicResults_analysis option
     \<Rightarrow> EconomicResults_analysis option" where
  "calculateEconomics_analysis res ed prev =
     (case res of
        None \<Rightarrow> prev
      | Some r \<Rightarrow>
          if \<not> truthy (precoConcetrado ed) then prev
          else
            let receitaAnual = receitaAnual_analysis r ed;
                custoProcessamentoAnual =
                  nmul (nmul (vazao (BalanceResults.alimentacao r)) (horasOperacao ed))
                    (custoProcessamento ed);
                mineralPerdido =
                  ndiv (nmul (vazao (BalanceResults.rejeito r))
                          (concentracao (BalanceResults.rejeito r))) (Fin 100);
                custoPerdaAnual =
                  nmul (nmul mineralPerdido (horasOperacao ed))
                    (custoPerdaMineral ed);
                lucroOperacionalAnual =
                  nsub (nsub receitaAnual custoProcessamentoAnual) custoPerdaAnual;
                margemLucro = nmul (ndiv lucroOperacionalAnual receitaAnual) (Fin 100)
            in Some
                 \<lparr> EconomicResults_analysis.receita =
                     \<lparr> diaria = ndiv receitaAnual (Fin 365),
                       Receita.mensal = ndiv receitaAnual (Fin 12),
                       Receita.anual = receitaAnual \<rparr>,
                   custos =
                     \<lparr> processamento = custoProcessamentoAnual,
                       perdas = custoPerdaAnual,
                       total = nadd custoProcessamentoAnual custoPerdaAnual \<rparr>,
                   lucro =
                     \<lparr> diario = ndiv lucroOperacionalAnual (Fin 365),
                       Lucro.mensal = ndiv lucroOperacionalAnual (Fin 12),
                       Lucro.anual = lucroOperacionalAnual \<rparr>,
                   margemLucro = margemLucro,
                   indicadores =
                     \<lparr> receita_por_tonelada_concentrado = precoConcetrado ed,
                       custo_por_tonelada_alimentacao = custoProcessamento ed,
                       eficiencia_economica =
                         nmul (ndiv (nsub (nmul (recuperacao r) (precoConcetrado ed))
                                       (custoProcessamento ed))
                                 (precoConcetrado ed)) (Fin 100) \<rparr> \<rparr>)"

section \<open>Example inputs\<close>

text \<open>
  The iron-ore example as loaded into the initial state; then the session in which it was
  solved and the assays edited so that the concentrate is poorer than the feed.
\<close>

definition exampleIronOre :: App where
  "exampleIronOre = loadExample ''iron-ore'' initialApp"

definition exampleNonPhysical :: App where
  "exampleNonPhysical =
     setStreams \<lparr>vazao = Fin 100, concentracao = Fin 30, densidade = Fin 3\<rparr>
       \<lparr>vazao = Fin 0, concentracao = Fin 20, densidade = Fin 4\<rparr>
       \<lparr>vazao = Fin 0, concentracao = Fin 10, densidade = Fin 2\<rparr>
       (calculateBalance exampleIronOre)"

text \<open>
  A feed of 10 t/h whose assay 60.79999999999999 is just below the concentrate assay 60.8,
  with a tailings assay of 9.2; a feed with a negative flow rate and assays in the
  physical order; and a feed of \<open>2^1023\<close> t/h, the largest power of two that is a
  double, with assays 50 > 30 > 10.
\<close>

definition exampleRoundedAbove :: App where
  "exampleRoundedAbove =
     setStreams \<lparr>vazao = Fin 10, concentracao = lit 60.79999999999999, densidade = Fin 1\<rparr>
       \<lparr>vazao = Fin 0, concentracao = lit 60.8, densidade = Fin 1\<rparr>
       \<lparr>vazao = Fin 0, concentracao = lit 9.2, densidade = Fin 1\<rparr>
       initialApp"

definition exampleNegativeFeed :: App where
  "exampleNegativeFeed =
     setStreams \<lparr>vazao = Fin (- 100), concentracao = Fin 20, densidade = Fin 1\<rparr>
       \<lparr>vazao = Fin 0, concentracao = Fin 30, densidade = Fin 1\<rparr>
       \<lparr>vazao = Fin 0, concentracao = Fin 10, densidade = Fin 1\<rparr>
       initialApp"

definition exampleHugeFeed :: App where
  "exampleHugeFeed =
     setStreams \<lparr>vazao = Fin (2 ^ 1023), concentracao = Fin 30, densidade = Fin 1\<rparr>
       \<lparr>vazao = Fin 0, concentracao = Fin 50, densidade = Fin 1\<rparr>
       \<lparr>vazao = Fin 0, concentracao = Fin 10, densidade = Fin 1\<rparr>
       initialApp"



text \<open>
  A feed of 1 t/h at 5.5 with a concentrate assay of 9.1 and a tailings assay of
  \<open>1e-17\<close>, every density 1; and a feed of three times the smallest positive double,
  \<open>3 * 2^-1074\<close> t/h, with assays 50 > 30 > 10.
\<close>

definition exampleSubnormal :: App where
  "exampleSubnormal =
     setStreams \<lparr>vazao = Fin (3 / 2 ^ 1074), concentracao = Fin 30, densidade = Fin 1\<rparr>
       \<lparr>vazao = Fin 0, concentracao = Fin 50, densidade = Fin 1\<rparr>
       \<lparr>vazao = Fin 0, concentracao = Fin 10, densidade = Fin 1\<rparr>
       initialApp"


text \<open>
  A session of 21 solves of the iron-ore assays, the feed flow rate going from 1 to 21
  t/h; \<open>inputOk\<close> says that a solve of the given streams succeeds and \<open>resultOf\<close> is the
  record it stores (both depend on the three streams only).
\<close>

definition inputOk :: "StreamData \<times> StreamData \<times> StreamData \<Rightarrow> bool" where
  "inputOk i = (case i of (a, c, r) \<Rightarrow> solveOk (setStreams a c r initialApp))"

definition resultOf :: "StreamData \<times> StreamData \<times> StreamData \<Rightarrow> BalanceResults" where
  "resultOf i = (case i of (a, c, r) \<Rightarrow> newResults (setStreams a c r initialApp))"

definition exampleInput :: "nat \<Rightarrow> StreamData \<times> StreamData \<times> StreamData" where
  "exampleInput n =
     (\<lparr>vazao = Fin (real n), concentracao = lit 35.5, densidade = lit 3.8\<rparr>,
      \<lparr>vazao = Fin 0, concentracao = lit 68.2, densidade = lit 4.8\<rparr>,
      \<lparr>vazao = Fin 0, concentracao = lit 8.5, densidade = lit 2.9\<rparr>)"

definition exampleSession :: "(StreamData \<times> StreamData \<times> StreamData) list" where
  "exampleSession = map exampleInput [1..<22]"

text \<open>
  \<open>approx tol x v\<close>: the number \<open>x\<close> is finite and within \<open>tol\<close> of \<open>v\<close>; a value quoted
  with two decimals is read with \<open>tol = 0.005\<close>.
\<close>

definition approx :: "real \<Rightarrow> number \<Rightarrow> real \<Rightarrow> bool" where
  "approx tol x v = (case x of Fin y \<Rightarrow> \<bar>y - v\<bar> \<le> tol | _ \<Rightarrow> False)"




text \<open>
  Two inputs of the grid search. In the first the concentrate assay 50 is below
  \<open>minGrade\<close>, the tailings assay 35 leaves the candidates 36, 38 and 40, and the target
  recovery is 30. In the second the feed flow rate is the smallest positive double,
  \<open>2^-1074\<close>, and the tailings assay 39 leaves the candidate 40.
\<close>

definition exampleClamp :: App where
  "exampleClamp =
     setStreams \<lparr>vazao = Fin 100, concentracao = Fin 20, densidade = Fin 3\<rparr>
       \<lparr>vazao = Fin 0, concentracao = Fin 50, densidade = Fin 4\<rparr>
       \<lparr>vazao = Fin 0, concentracao = Fin 35, densidade = Fin 2\<rparr>
       (initialApp\<lparr>optimizationParams :=
          \<lparr>targetRecovery = Fin 30, maxDensity = Fin 5, minGrade = Fin 60, energyLimit = Fin 15\<rparr>\<rparr>)"





text \<open>A filling of the form of the component EconomicAnalysis with zero operating hours.\<close>

definition exampleZeroHours :: EconomicData_analysis where
  "exampleZeroHours =
     \<lparr>precoConcetrado = Fin 1500, custoProcessamento = Fin 25, custoPerdaMineral = Fin 800,
      horasOperacao = Fin 0\<rparr>"

section \<open>Rounding\<close>

lemma scale_pos [simp]: "0 < scale"
  by (simp add: scale_def)

lemma huge_pos [simp]: "0 < huge"
  by (simp add: huge_def)

lemma scale_facts [simp]:
  "0 \<le> scale" "scale \<noteq> 0" "\<bar>scale\<bar> = scale" "0 < huge * scale" "\<not> huge * scale \<le> 0"
  using scale_pos huge_pos by (simp_all add: not_le del: scale_pos huge_pos)

lemma roundEven_zero [simp]: "roundEven 0 = 0"
  by (simp add: roundEven_def)

lemma roundEven_cases:
  "roundEven r = \<lfloor>r\<rfloor> \<and> r - of_int \<lfloor>r\<rfloor> \<le> 1 / 2
   \<or> roundEven r = \<lfloor>r\<rfloor> + 1 \<and> 1 / 2 \<le> r - of_int \<lfloor>r\<rfloor>"
  by (simp add: roundEven_def Let_def)

lemma roundEven_error: "\<bar>of_int (roundEven r) - r\<bar> \<le> 1 / 2"
proof -
  have "of_int \<lfloor>r\<rfloor> \<le> r" "r < of_int \<lfloor>r\<rfloor> + 1"
    by simp_all
  with roundEven_cases [of r] show ?thesis
    by (auto simp: abs_le_iff)
qed

lemma roundEven_of_int [simp]: "roundEven (of_int n) = n"
  by (simp add: roundEven_def)

lemma roundEven_ge: "of_int n \<le> r \<Longrightarrow> n \<le> roundEven r"
proof -
  assume "of_int n \<le> r"
  then have "n \<le> \<lfloor>r\<rfloor>" by (simp add: le_floor_iff)
  with roundEven_cases [of r] show ?thesis by auto
qed

lemma roundEven_le: "r \<le> of_int n \<Longrightarrow> roundEven r \<le> n"
proof -
  assume le: "r \<le> of_int n"
  show ?thesis
  proof (cases "r = of_int n")
    case True
    then show ?thesis by simp
  next
    case False
    with le have "r < of_int n" by simp
    then have "\<lfloor>r\<rfloor> < n" by (simp add: floor_less_iff)
    with roundEven_cases [of r] show ?thesis by auto
  qed
qed

lemma scaled_nonneg: "0 \<le> scaled x"
  by (simp add: scaled_def)

lemma quantum_pos: "0 < quantum x"
  by (simp add: quantum_def)

lemma quantum_ge1: "1 \<le> quantum x"
  by (simp add: quantum_def)

lemma rounded_nonneg: "0 \<le> rounded x"
proof -
  have "0 \<le> scaled x / quantum x"
    using scaled_nonneg [of x] quantum_pos [of x] by simp
  then have "0 \<le> roundEven (scaled x / quantum x)"
    using roundEven_ge [of 0] by simp
  then show ?thesis
    using quantum_pos [of x] by (simp add: rounded_def)
qed

lemma rounded_error_quantum: "\<bar>rounded x - scaled x\<bar> \<le> quantum x / 2"
proof -
  let ?q = "quantum x"
  have q: "0 < ?q" by (rule quantum_pos)
  have "\<bar>of_int (roundEven (scaled x / ?q)) - scaled x / ?q\<bar> \<le> 1 / 2"
    by (rule roundEven_error)
  then have "\<bar>of_int (roundEven (scaled x / ?q)) - scaled x / ?q\<bar> * ?q \<le> 1 / 2 * ?q"
    using q by (simp only: mult_le_cancel_right_pos)
  moreover have "\<bar>of_int (roundEven (scaled x / ?q)) - scaled x / ?q\<bar> * ?q
      = \<bar>rounded x - scaled x\<bar>"
  proof -
    have "\<bar>of_int (roundEven (scaled x / ?q)) - scaled x / ?q\<bar> * ?q
        = \<bar>(of_int (roundEven (scaled x / ?q)) - scaled x / ?q) * ?q\<bar>"
      using q by (simp add: abs_mult)
    also have "(of_int (roundEven (scaled x / ?q)) - scaled x / ?q) * ?q = rounded x - scaled x"
      using q by (simp add: rounded_def algebra_simps)
    finally show ?thesis .
  qed
  ultimately show ?thesis by simp
qed

text \<open>In a binade above the subnormal range the scaled magnitude is at least \<open>2^52\<close> quanta.\<close>

lemma quantum_cases:
  "quantum x = 1 \<or> 2 ^ 52 * quantum x \<le> scaled x"
proof (cases "bitlen \<lfloor>scaled x\<rfloor> \<le> 53")
  case True
  then show ?thesis by (simp add: quantum_def)
next
  case False
  let ?n = "\<lfloor>scaled x\<rfloor>"
  let ?b = "bitlen ?n"
  from False have b: "54 \<le> ?b" by simp
  then have pos: "0 < ?n"
    using bitlen_eq_zero_iff [of ?n] by (cases "0 < ?n") auto
  from bitlen_bounds [OF pos] have "2 ^ nat (?b - 1) \<le> ?n" ..
  then have "(2::real) ^ nat (?b - 1) \<le> of_int ?n"
    by (metis of_int_le_iff of_int_numeral of_int_power)
  also have "\<dots> \<le> scaled x" by simp
  finally have lo: "(2::real) ^ nat (?b - 1) \<le> scaled x" .
  have "nat (?b - 1) = 52 + nat (?b - 53)"
    using b by simp
  then have "(2::real) ^ nat (?b - 1) = 2 ^ 52 * 2 ^ nat (?b - 53)"
    by (simp only: power_add)
  with lo show ?thesis by (simp add: quantum_def)
qed

lemma rounded_error: "\<bar>rounded x - scaled x\<bar> \<le> scaled x / 2 ^ 53 + 1 / 2"
proof -
  from quantum_cases [of x] show ?thesis
  proof
    assume "quantum x = 1"
    with rounded_error_quantum [of x] scaled_nonneg [of x] show ?thesis
      by simp
  next
    assume "2 ^ 52 * quantum x \<le> scaled x"
    then have "quantum x / 2 \<le> scaled x / 2 ^ 53"
      by simp
    with rounded_error_quantum [of x] show ?thesis
      by simp
  qed
qed

lemma rounded_ge_quanta: "2 ^ 52 * quantum x \<le> scaled x \<Longrightarrow> 2 ^ 52 * quantum x \<le> rounded x"
proof -
  assume "2 ^ 52 * quantum x \<le> scaled x"
  then have "of_int (2 ^ 52) \<le> scaled x / quantum x"
    using quantum_pos [of x] by (simp add: pos_le_divide_eq)
  then have "2 ^ 52 \<le> roundEven (scaled x / quantum x)"
    by (rule roundEven_ge)
  then have "(2::real) ^ 52 \<le> of_int (roundEven (scaled x / quantum x))"
    by (metis of_int_le_iff of_int_numeral of_int_power)
  then show ?thesis
    using quantum_pos [of x] by (simp add: rounded_def)
qed



lemma scaled_minus [simp]: "scaled (- x) = scaled x"
  by (simp add: scaled_def)

lemma quantum_minus [simp]: "quantum (- x) = quantum x"
  by (simp add: quantum_def)

lemma rounded_minus [simp]: "rounded (- x) = rounded x"
  by (simp add: rounded_def)

lemma rounded_zero [simp]: "rounded 0 = 0"
  by (simp add: rounded_def scaled_def)

lemma rnd_zero [simp]: "rnd 0 = Fin 0"
  by (simp add: rnd_def)

lemma rnd_minus: "rnd (- x) = nneg (rnd x)"
proof (cases "x = 0")
  case True
  then show ?thesis by simp
next
  case False
  then show ?thesis
    by (cases "0 < x") (simp_all add: rnd_def sgn_if)
qed

lemma x_scaled: "x = sgn x * scaled x / scale"
  by (simp add: scaled_def sgn_if)

lemma rnd_value:
  assumes "rnd x = Fin y"
  shows "y = sgn x * rounded x / scale" and "rounded x < huge * scale"
  using assms by (auto simp: rnd_def split: if_splits)

lemma rnd_diff:
  assumes "rnd x = Fin y"
  shows "\<bar>y - x\<bar> = \<bar>rounded x - scaled x\<bar> / scale"
proof -
  have "y - x = sgn x * rounded x / scale - sgn x * scaled x / scale"
    using rnd_value(1) [OF assms] x_scaled [of x] by simp
  also have "\<dots> = sgn x * (rounded x - scaled x) / scale"
    by (simp add: algebra_simps diff_divide_distrib)
  finally have "\<bar>y - x\<bar> = \<bar>sgn x\<bar> * \<bar>rounded x - scaled x\<bar> / scale"
    by (simp add: abs_mult)
  moreover have "\<bar>sgn x\<bar> = 1 \<or> rounded x - scaled x = 0"
    by (cases "x = 0") (simp_all add: scaled_def)
  ultimately show ?thesis by auto
qed

lemma rnd_error:
  assumes "rnd x = Fin y"
  shows "\<bar>y - x\<bar> \<le> \<bar>x\<bar> / 2 ^ 53 + 1 / (2 * scale)"
proof -
  have "\<bar>rounded x - scaled x\<bar> / scale \<le> (scaled x / 2 ^ 53 + 1 / 2) / scale"
    using rounded_error [of x] by (simp add: divide_right_mono)
  also have "\<dots> = \<bar>x\<bar> / 2 ^ 53 + 1 / (2 * scale)"
    by (simp add: scaled_def add_divide_distrib)
  finally show ?thesis
    by (simp only: rnd_diff [OF assms])
qed



lemma rnd_sign_pos:
  assumes "0 \<le> x"
  shows "rnd x = PInf \<or> (\<exists>y\<ge>0. rnd x = Fin y)"
proof (cases "x = 0")
  case True
  then show ?thesis by simp
next
  case False
  with assms have "0 < x" by simp
  then show ?thesis
    using rounded_nonneg [of x] by (simp add: rnd_def)
qed

lemma rnd_sign_neg:
  assumes "x \<le> 0"
  shows "rnd x = NInf \<or> (\<exists>y\<le>0. rnd x = Fin y)"
proof -
  from assms have "0 \<le> - x" by simp
  from rnd_sign_pos [OF this] show ?thesis
    by (cases "rnd x") (auto simp: rnd_minus)
qed

lemma rnd_finite:
  assumes "\<bar>x\<bar> \<le> huge / 2"
  shows "\<exists>y. rnd x = Fin y"
proof -
  define H where "H = huge * scale"
  have s: "scaled x \<le> H / 2"
    using assms unfolding scaled_def H_def
    by (simp add: mult_right_mono)
  have big: "2 \<le> H"
    by (simp add: H_def huge_def scale_def)
  have "rounded x \<le> scaled x + (scaled x / 2 ^ 53 + 1 / 2)"
    using rounded_error [of x] by (simp add: abs_le_iff)
  also have "\<dots> \<le> H / 2 + (H / 2 / 2 ^ 53 + 1 / 2)"
    using s by (intro add_mono divide_right_mono) simp_all
  also have "\<dots> < H"
    using big by simp
  finally show ?thesis
    by (simp add: rnd_def H_def)
qed

lemma rnd_overflow:
  assumes "huge \<le> \<bar>x\<bar>"
  shows "rnd x = (if 0 < x then PInf else NInf)"
proof -
  have s: "huge * scale \<le> scaled x"
    using assms unfolding scaled_def by (simp only: mult_le_cancel_right_pos scale_pos)
  have hs: "huge * scale = 2 ^ 2098"
    by (simp add: huge_def scale_def)
  from quantum_cases [of x] have "huge * scale \<le> rounded x"
  proof
    assume q: "quantum x = 1"
    have "of_int (2 ^ 2098) \<le> scaled x / quantum x"
      using s q by (simp add: hs)
    then have "2 ^ 2098 \<le> roundEven (scaled x / quantum x)"
      by (rule roundEven_ge)
    then have "(2::real) ^ 2098 \<le> of_int (roundEven (scaled x / quantum x))"
      by (metis of_int_le_iff of_int_numeral of_int_power)
    then show ?thesis
      by (simp add: rounded_def q hs)
  next
    assume qs: "2 ^ 52 * quantum x \<le> scaled x"
    let ?n = "\<lfloor>scaled x\<rfloor>"
    have "of_int (2 ^ 2098) \<le> scaled x" using s by (simp add: hs)
    then have n: "2 ^ 2098 \<le> ?n" by (simp only: le_floor_iff)
    then have "2099 \<le> bitlen ?n"
      by (simp add: bitlen_ge_iff_power)
    then have "(2::real) ^ 2046 \<le> 2 ^ nat (bitlen ?n - 53)"
      by (intro power_increasing) simp_all
    then have "(2::real) ^ 52 * 2 ^ 2046 \<le> 2 ^ 52 * quantum x"
      by (simp add: quantum_def)
    also have "\<dots> \<le> rounded x"
      using qs by (rule rounded_ge_quanta)
    finally show ?thesis by (simp add: hs)
  qed
  then show ?thesis by (simp add: rnd_def)
qed


text \<open>Evaluation: a magnitude in the binade of quantum \<open>q\<close> is rounded to a multiple of \<open>q\<close>.\<close>

lemma quantum_scale:
  assumes "q = 2 powi j" "- 1074 \<le> j"
  shows "q * scale = 2 ^ nat (j + 1074)"
proof -
  have "q * scale = 2 powi j * 2 powi 1074"
    by (simp add: assms(1) scale_def)
  also have "\<dots> = 2 powi (j + 1074)"
    by (simp add: power_int_add)
  also have "\<dots> = 2 ^ nat (j + 1074)"
    using assms(2) by (simp add: power_int_nonneg_exp)
  finally show ?thesis .
qed

lemma quantum_eval:
  assumes "q = 2 powi j" "- 1074 \<le> j"
    and "j = - 1074 \<or> 2 ^ 52 * q \<le> \<bar>x\<bar>" and "\<bar>x\<bar> < 2 ^ 53 * q"
  shows "quantum x = q * scale"
proof -
  define k where "k = nat (j + 1074)"
  have qs: "q * scale = 2 ^ k"
    unfolding k_def by (rule quantum_scale [OF assms(1,2)])
  let ?n = "\<lfloor>scaled x\<rfloor>"
  have "scaled x < 2 ^ 53 * q * scale"
    using assms(4) unfolding scaled_def by (simp add: mult_strict_right_mono)
  then have "scaled x < of_int (2 ^ (53 + k))"
    by (simp add: qs power_add mult.assoc)
  then have hi: "?n < 2 ^ (53 + k)"
    by (simp only: floor_less_iff)
  then have le: "bitlen ?n \<le> 53 + int k"
    by (simp add: bitlen_le_iff_power nat_add_distrib)
  from assms(3) show ?thesis
  proof
    assume "j = - 1074"
    then have "k = 0" by (simp add: k_def)
    with le qs show ?thesis by (simp add: quantum_def)
  next
    assume "2 ^ 52 * q \<le> \<bar>x\<bar>"
    then have "2 ^ 52 * q * scale \<le> scaled x"
      unfolding scaled_def by (simp add: mult_right_mono)
    then have "of_int (2 ^ (52 + k)) \<le> scaled x"
      by (simp add: qs power_add mult.assoc)
    then have "2 ^ (52 + k) \<le> ?n"
      by (simp only: le_floor_iff)
    then have "53 + int k \<le> bitlen ?n"
      by (simp add: bitlen_ge_iff_power nat_add_distrib)
    with le have "bitlen ?n = 53 + int k" by simp
    then show ?thesis by (simp add: quantum_def qs)
  qed
qed

lemma rnd_eval:
  assumes "q = 2 powi j" "- 1074 \<le> j"
    and "j = - 1074 \<or> 2 ^ 52 * q \<le> \<bar>x\<bar>" and "\<bar>x\<bar> < 2 ^ 53 * q"
  shows "rnd x =
           (if huge \<le> of_int (roundEven (\<bar>x\<bar> / q)) * q then (if 0 < x then PInf else NInf)
            else Fin (sgn x * (of_int (roundEven (\<bar>x\<bar> / q)) * q)))"
proof -
  have q: "0 < q" by (simp add: assms(1))
  have qu: "quantum x = q * scale"
    by (rule quantum_eval [OF assms])
  have "scaled x / quantum x = \<bar>x\<bar> / q"
    by (simp add: qu scaled_def)
  then have r: "rounded x = of_int (roundEven (\<bar>x\<bar> / q)) * q * scale"
    by (simp add: rounded_def qu)
  show ?thesis
    by (simp add: rnd_def r)
qed

text \<open>A multiple of a quantum by fewer than \<open>2^53\<close> is a double: rounding leaves it alone.\<close>

lemma rnd_exact:
  assumes x: "x = of_int i * q" and q: "q = 2 powi j" "- 1074 \<le> j"
    and i: "\<bar>i\<bar> < 2 ^ 53" and fin: "\<bar>x\<bar> < huge"
  shows "rnd x = Fin x"
proof (cases "i = 0")
  case True
  with x show ?thesis by simp
next
  case False
  define k where "k = nat (j + 1074)"
  have qs: "q * scale = 2 ^ k"
    unfolding k_def by (rule quantum_scale [OF q])
  have q0: "0 < q" by (simp add: q(1))
  define n where "n = \<bar>i\<bar> * 2 ^ k"
  have pos: "0 < \<bar>i\<bar>" using False by simp
  have "scaled x = \<bar>of_int i\<bar> * (q * scale)"
    using q0 by (simp add: scaled_def x abs_mult)
  then have sc: "scaled x = of_int n"
    by (simp add: qs n_def)
  then have fl: "\<lfloor>scaled x\<rfloor> = n" by simp
  have b: "bitlen n = bitlen \<bar>i\<bar> + int k"
    unfolding n_def by (rule bitlen_pow2 [OF pos])
  have "bitlen \<bar>i\<bar> \<le> 53"
    using i by (simp add: bitlen_le_iff_power)
  then have d: "nat (bitlen n - 53) \<le> k"
    by (simp add: b)
  define e where "e = nat (bitlen n - 53)"
  have qu: "quantum x = 2 ^ e"
    by (simp add: quantum_def fl e_def)
  have "(2::int) ^ k = 2 ^ (k - e) * 2 ^ e"
    using d by (simp add: e_def flip: power_add)
  then have "n = (\<bar>i\<bar> * 2 ^ (k - e)) * 2 ^ e"
    by (simp add: n_def)
  then have "scaled x / quantum x = of_int (\<bar>i\<bar> * 2 ^ (k - e))"
    by (simp add: sc qu)
  then have "rounded x = of_int (\<bar>i\<bar> * 2 ^ (k - e)) * 2 ^ e"
    unfolding rounded_def by (simp only: roundEven_of_int qu)
  also have "\<dots> = of_int ((\<bar>i\<bar> * 2 ^ (k - e)) * 2 ^ e)"
    by simp
  also have "(\<bar>i\<bar> * 2 ^ (k - e)) * 2 ^ e = n"
    using \<open>n = (\<bar>i\<bar> * 2 ^ (k - e)) * 2 ^ e\<close> by simp
  finally have r: "rounded x = scaled x"
    by (simp add: sc)
  have "scaled x < huge * scale"
    using fin unfolding scaled_def by (simp add: mult_strict_right_mono)
  then show ?thesis
    using x_scaled [of x] by (simp add: rnd_def r)
qed

lemma rnd_int:
  assumes "x \<in> \<int>" "\<bar>x\<bar> \<le> 2 ^ 53"
  shows "rnd x = Fin x"
proof -
  from assms(1) obtain i where i: "x = of_int i"
    by (auto elim: Ints_cases)
  have h: "(2::real) ^ 53 < huge"
    by (simp add: huge_def)
  show ?thesis
  proof (cases "\<bar>i\<bar> < 2 ^ 53")
    case True
    show ?thesis
    proof (rule rnd_exact [of x i 1 0])
      show "\<bar>x\<bar> < huge"
        using assms(2) h by simp
    qed (use True in \<open>simp_all add: i\<close>)
  next
    case False
    have "(of_int \<bar>i\<bar> :: real) \<le> of_int (2 ^ 53)"
      using assms(2) by (simp add: i)
    then have "\<bar>i\<bar> \<le> 2 ^ 53"
      by (simp only: of_int_le_iff)
    with False have "\<bar>i\<bar> = 2 ^ 53"
      by simp
    then have "i = 9007199254740992 \<or> i = - 9007199254740992"
      by simp presburger
    then have two: "i = 2 * (i div 2)" and half: "\<bar>i div 2\<bar> < 2 ^ 53"
      by auto
    show ?thesis
    proof (rule rnd_exact [of x "i div 2" 2 1])
      show "x = of_int (i div 2) * 2"
        using two by (simp add: i)
      show "\<bar>x\<bar> < huge"
        using assms(2) h by simp
    qed (use half in simp_all)
  qed
qed

section \<open>The three outcomes of \<open>calculateBalance\<close>\<close>

lemma calculateBalance_invalid:
  "newErrors st \<noteq> [] \<Longrightarrow> calculateBalance st = st\<lparr>errors := newErrors st\<rparr>"
  by (simp add: calculateBalance_def)

lemma calculateBalance_nonphysical:
  "newErrors st = [] \<Longrightarrow> nlt (solveC st) (Fin 0) \<or> nlt (solveT st) (Fin 0) \<Longrightarrow>
   calculateBalance st = st\<lparr>errors := [DadosInconsistentes]\<rparr>"
  by (simp add: calculateBalance_def)

lemma calculateBalance_ok:
  "solveOk st \<Longrightarrow>
   calculateBalance st =
     st\<lparr> results := Some (newResults st), errors := [],
         simulationHistory := slice_last 20 (simulationHistory st @ [newResults st]) \<rparr>"
  by (simp add: calculateBalance_def solveOk_def)

lemma calculateBalance_failed:
  assumes "\<not> solveOk st"
  shows "errors (calculateBalance st) \<noteq> []"
    and "calculateBalance st = st\<lparr>errors := errors (calculateBalance st)\<rparr>"
proof -
  show "errors (calculateBalance st) \<noteq> []"
  proof (cases "newErrors st = []")
    case True
    with assms show ?thesis by (simp add: solveOk_def calculateBalance_nonphysical)
  next
    case False
    then show ?thesis by (simp add: calculateBalance_invalid)
  qed
  show "calculateBalance st = st\<lparr>errors := errors (calculateBalance st)\<rparr>"
  proof (cases "newErrors st = []")
    case True
    with assms show ?thesis by (simp add: solveOk_def calculateBalance_nonphysical)
  next
    case False
    then show ?thesis by (simp add: calculateBalance_invalid)
  qed
qed

section \<open>The iron-ore example, evaluated\<close>

text \<open>
  The rules that evaluate a rounding: \<open>rnd_eval\<close> at the quanta that occur in the
  examples, and \<open>rnd_int\<close> for integers.
\<close>

lemmas eval_simps =
  rnd_int power_int_minus roundEven_def huge_def nsub_def lit_def

lemma exampleIronOre_streams:
  "App.alimentacao exampleIronOre
     = \<lparr>vazao = Fin 100, concentracao = Fin (71 / 2),
        densidade = Fin (4278419646001971 / 1125899906842624)\<rparr>"
  "App.concentrado exampleIronOre
     = \<lparr>vazao = Fin 0, concentracao = Fin (4799148352916685 / 70368744177664),
        densidade = Fin (5404319552844595 / 1125899906842624)\<rparr>"
  "App.rejeito exampleIronOre
     = \<lparr>vazao = Fin 0, concentracao = Fin (17 / 2),
        densidade = Fin (6530219459687219 / 2251799813685248)\<rparr>"
  by (simp_all add: exampleIronOre_def loadExample_def)
     (simp_all add: eval_simps rnd_eval [of "1 / 2 ^ 51" "- 51"] rnd_eval [of "1 / 2 ^ 50" "- 50"]
        rnd_eval [of "1 / 2 ^ 49" "- 49"] rnd_eval [of "1 / 2 ^ 47" "- 47"]
        rnd_eval [of "1 / 2 ^ 46" "- 46"])

lemma exampleIronOre_C:
  "solveC exampleIronOre = Fin (6365012036170613 / 140737488355328)"
  by (simp add: solveC_def exampleIronOre_streams eval_simps rnd_eval [of "1 / 2 ^ 47" "- 47"])

lemma exampleIronOre_T:
  "solveT exampleIronOre = Fin (7708736799362187 / 140737488355328)"
  by (simp add: solveT_def exampleIronOre_C exampleIronOre_streams eval_simps
        rnd_eval [of "1 / 2 ^ 47" "- 47"])

lemma exampleIronOre_ok: "solveOk exampleIronOre"
  by (simp add: solveOk_def newErrors_def exampleIronOre_C exampleIronOre_T exampleIronOre_streams)

lemma exampleIronOre_solved:
  "calculateBalance exampleIronOre =
     exampleIronOre
       \<lparr> results := Some (newResults exampleIronOre), errors := [],
         simulationHistory := [newResults exampleIronOre] \<rparr>"
proof -
  have "simulationHistory exampleIronOre = []"
    by (simp add: exampleIronOre_def loadExample_def initialApp_def)
  then show ?thesis
    by (simp add: calculateBalance_ok [OF exampleIronOre_ok] slice_last_def)
qed

lemma exampleIronOre_values:
  "vazao (BalanceResults.concentrado (newResults exampleIronOre))
     = Fin (6365012036170613 / 140737488355328)"
  "vazao (BalanceResults.rejeito (newResults exampleIronOre))
     = Fin (7708736799362187 / 140737488355328)"
  "recuperacao (newResults exampleIronOre) = Fin (764249684624711 / 8796093022208)"
  "razaoConcentracao (newResults exampleIronOre) = Fin (1081498220375591 / 562949953421312)"
  by (simp_all add: newResults_def Let_def exampleIronOre_C exampleIronOre_T
        exampleIronOre_streams eval_simps rnd_eval [of "1 / 2 ^ 53" "- 53"]
        rnd_eval [of "1 / 2 ^ 52" "- 52"] rnd_eval [of "1 / 2 ^ 46" "- 46"]
        rnd_eval [of "1 / 2 ^ 41" "- 41"])

section \<open>Failed solves\<close>

text \<open>
  Claim C3. When the validations pass and the solved concentrate flow rate \<open>C\<close> or the
  solved tailings flow rate \<open>T\<close> is negative, the solve fails with the message for
  non-physical results. On every failed solve, whether an input is missing or the result is
  not physical, the error list is not empty and the new state is the old one with only the
  error list replaced: the stored result and the history are the ones of before. A solve
  that succeeds stores flow rates that are not negative.
\<close>

theorem C3_failed_solve_keeps_state:
  "(newErrors st = [] \<and> (nlt (solveC st) (Fin 0) \<or> nlt (solveT st) (Fin 0))
      \<longrightarrow> errors (calculateBalance st) = [DadosInconsistentes])
   \<and> (\<not> solveOk st
      \<longrightarrow> errors (calculateBalance st) \<noteq> []
          \<and> calculateBalance st = st\<lparr>errors := errors (calculateBalance st)\<rparr>)
   \<and> (solveOk st
      \<longrightarrow> (\<exists>r. App.results (calculateBalance st) = Some r
               \<and> \<not> nlt (vazao (BalanceResults.concentrado r)) (Fin 0)
               \<and> \<not> nlt (vazao (BalanceResults.rejeito r)) (Fin 0)))"
proof (intro conjI impI)
  assume "newErrors st = [] \<and> (nlt (solveC st) (Fin 0) \<or> nlt (solveT st) (Fin 0))"
  then show "errors (calculateBalance st) = [DadosInconsistentes]"
    by (simp add: calculateBalance_nonphysical)
next
  assume "\<not> solveOk st"
  then show "errors (calculateBalance st) \<noteq> []"
    by (rule calculateBalance_failed)
next
  assume "\<not> solveOk st"
  then show "calculateBalance st = st\<lparr>errors := errors (calculateBalance st)\<rparr>"
    by (rule calculateBalance_failed)
next
  assume "solveOk st"
  then show "\<exists>r. App.results (calculateBalance st) = Some r
               \<and> \<not> nlt (vazao (BalanceResults.concentrado r)) (Fin 0)
               \<and> \<not> nlt (vazao (BalanceResults.rejeito r)) (Fin 0)"
    by (simp add: calculateBalance_ok) (simp add: solveOk_def newResults_def Let_def)
qed

text \<open>
  The theorem at the edited iron-ore session: \<open>C = 200\<close> and \<open>T = -100\<close>, the solve fails
  with the one message, and the result and the history of the first solve are still there.
\<close>

theorem C3_failed_solve_keeps_state_witness:
  "newErrors exampleNonPhysical = []
   \<and> solveC exampleNonPhysical = Fin 200
   \<and> solveT exampleNonPhysical = Fin (- 100)
   \<and> errors (calculateBalance exampleNonPhysical) = [DadosInconsistentes]
   \<and> App.results (calculateBalance exampleNonPhysical) = Some (newResults exampleIronOre)
   \<and> simulationHistory (calculateBalance exampleNonPhysical) = [newResults exampleIronOre]"
proof -
  have streams:
    "App.alimentacao exampleNonPhysical = \<lparr>vazao = Fin 100, concentracao = Fin 30, densidade = Fin 3\<rparr>"
    "App.concentrado exampleNonPhysical = \<lparr>vazao = Fin 0, concentracao = Fin 20, densidade = Fin 4\<rparr>"
    "App.rejeito exampleNonPhysical = \<lparr>vazao = Fin 0, concentracao = Fin 10, densidade = Fin 2\<rparr>"
    by (simp_all add: exampleNonPhysical_def setStreams_def)
  have valid: "newErrors exampleNonPhysical = []"
    by (simp add: newErrors_def streams)
  have C: "solveC exampleNonPhysical = Fin 200"
    by (simp add: solveC_def streams eval_simps)
  have T: "solveT exampleNonPhysical = Fin (- 100)"
    by (simp add: solveT_def C streams eval_simps)
  have bad: "\<not> solveOk exampleNonPhysical"
    by (simp add: solveOk_def T)
  have old: "App.results exampleNonPhysical = Some (newResults exampleIronOre)"
    "simulationHistory exampleNonPhysical = [newResults exampleIronOre]"
    by (simp_all add: exampleNonPhysical_def setStreams_def exampleIronOre_solved)
  have neg: "nlt (solveT exampleNonPhysical) (Fin 0)"
    by (simp add: T)
  note inst = C3_failed_solve_keeps_state [of exampleNonPhysical]
  from inst valid neg
  have err: "errors (calculateBalance exampleNonPhysical) = [DadosInconsistentes]"
    by blast
  from inst bad
  have frame: "calculateBalance exampleNonPhysical
                 = exampleNonPhysical\<lparr>errors := errors (calculateBalance exampleNonPhysical)\<rparr>"
    by blast
  have "App.results (calculateBalance exampleNonPhysical) = App.results exampleNonPhysical"
    "simulationHistory (calculateBalance exampleNonPhysical) = simulationHistory exampleNonPhysical"
    by (subst frame, simp)+
  with valid C T err old show ?thesis by simp
qed

section \<open>What the optimizer leaves alone\<close>

lemma optLoop_frame:
  "vazao (fst (optLoop st conc best)) = vazao (fst best)
   \<and> densidade (fst (optLoop st conc best)) = densidade (fst best)"
proof (induction st conc best rule: optLoop.induct)
  case (1 st conc best)
  show ?case
  proof (cases "conc \<le> 40")
    case True
    have "vazao (fst (optStep st conc best)) = vazao (fst best)
          \<and> densidade (fst (optStep st conc best)) = densidade (fst best)"
      by (simp add: optStep_def Let_def)
    with 1 True show ?thesis
      by (simp del: optLoop.simps add: optLoop.simps [of st conc best])
  next
    case False
    then show ?thesis by simp
  qed
qed

text \<open>
  Claim C10. Whatever the state, after \<open>optimizeParameters\<close> the feed has the flow rate and
  the density it had, and the concentrate and tailings records are the ones of before: of
  the three streams only the feed assay can differ. (The call also replaces the error list
  by its completion message; the stored result, the history and the two forms stay.)
\<close>

theorem C10_optimizer_frame:
  "vazao (App.alimentacao (optimizeParameters st)) = vazao (App.alimentacao st)
   \<and> densidade (App.alimentacao (optimizeParameters st)) = densidade (App.alimentacao st)
   \<and> App.concentrado (optimizeParameters st) = App.concentrado st
   \<and> App.rejeito (optimizeParameters st) = App.rejeito st
   \<and> App.results (optimizeParameters st) = App.results st
   \<and> simulationHistory (optimizeParameters st) = simulationHistory st
   \<and> optimizationParams (optimizeParameters st) = optimizationParams st
   \<and> economicData (optimizeParameters st) = economicData st"
  by (simp add: optimizeParameters_def Let_def optLoop_frame del: optLoop.simps)

section \<open>The iron-ore example\<close>

text \<open>
  Claim C9, as the code has it. For feed 100 t/h at 35.5, concentrate assay 68.2 and
  tailings assay 8.5 the solve gives \<open>C\<close> about 45.23 t/h (the double nearest to
  \<open>2700 / 59.7\<close>), \<open>T\<close> about 54.77 t/h, a recovery of about 86.89 and a concentration
  ratio of about 1.92: each within 0.005 of the value quoted.
\<close>

theorem C9_iron_ore_values:
  "App.results (calculateBalance exampleIronOre) = Some (newResults exampleIronOre)
   \<and> approx 0.005 (vazao (BalanceResults.concentrado (newResults exampleIronOre))) 45.23
   \<and> approx 0.005 (vazao (BalanceResults.rejeito (newResults exampleIronOre))) 54.77
   \<and> approx 0.005 (recuperacao (newResults exampleIronOre)) 86.89
   \<and> approx 0.005 (razaoConcentracao (newResults exampleIronOre)) 1.92"
  by (simp add: exampleIronOre_solved exampleIronOre_values approx_def)

text \<open>
  The values of the claim, 45.15, 54.85 and 86.65, are not the ones the solve computes:
  each is more than 0.05 away, ten times what two decimals allow.
\<close>

theorem C9_iron_ore_counterexample:
  "App.results (calculateBalance exampleIronOre) = Some (newResults exampleIronOre)
   \<and> vazao (BalanceResults.concentrado (newResults exampleIronOre))
       = Fin (6365012036170613 / 140737488355328)
   \<and> \<not> approx 0.05 (vazao (BalanceResults.concentrado (newResults exampleIronOre))) 45.15
   \<and> vazao (BalanceResults.rejeito (newResults exampleIronOre))
       = Fin (7708736799362187 / 140737488355328)
   \<and> \<not> approx 0.05 (vazao (BalanceResults.rejeito (newResults exampleIronOre))) 54.85
   \<and> recuperacao (newResults exampleIronOre) = Fin (764249684624711 / 8796093022208)
   \<and> \<not> approx 0.05 (recuperacao (newResults exampleIronOre)) 86.65"
  by (simp add: exampleIronOre_solved exampleIronOre_values approx_def)

section \<open>Rounding of a non-negative result\<close>

lemma scale_ge_one: "1 \<le> scale"
  by (simp add: scale_def)

lemma huge_ge: "2 ^ 1000 \<le> huge"
  by (simp add: huge_def)

lemma rnd_nonneg:
  assumes "0 \<le> x" "x \<le> huge / 2"
  obtains y where "rnd x = Fin y" "0 \<le> y" "\<bar>y - x\<bar> \<le> x / 2 ^ 53 + 1 / (2 * scale)"
proof -
  from assms have "\<bar>x\<bar> \<le> huge / 2" by simp
  from rnd_finite [OF this] obtain y where y: "rnd x = Fin y" by blast
  with rnd_sign_pos [OF assms(1)] have "0 \<le> y" by auto
  moreover from rnd_error [OF y] assms(1) have "\<bar>y - x\<bar> \<le> x / 2 ^ 53 + 1 / (2 * scale)"
    by simp
  ultimately show ?thesis using y that by blast
qed

lemma rnd_not_negative: "0 \<le> x \<Longrightarrow> \<not> nlt (rnd x) (Fin 0)"
  using rnd_sign_pos [of x] by auto

section \<open>The history buffer\<close>

lemma length_slice_last: "length (slice_last n xs) \<le> n"
  by (simp add: slice_last_def)

lemma slice_last_short: "length xs \<le> n \<Longrightarrow> slice_last n xs = xs"
  by (simp add: slice_last_def)

lemma slice_last_append:
  "slice_last n (slice_last n xs @ ys) = slice_last n (xs @ ys)"
proof -
  have "length xs + length ys - (length xs - n + n) + (length xs - n)
          = length xs + length ys - n"
    by arith
  then show ?thesis by (simp add: slice_last_def)
qed

lemma history_failed:
  "\<not> solveOk st \<Longrightarrow> simulationHistory (calculateBalance st) = simulationHistory st"
  by (cases "newErrors st = []")
     (simp_all add: solveOk_def calculateBalance_nonphysical calculateBalance_invalid)

lemma solveOk_streams:
  "solveOk (setStreams a c r st) = solveOk (setStreams a c r st')"
  by (simp add: solveOk_def newErrors_def solveC_def solveT_def setStreams_def)

lemma newResults_streams:
  "newResults (setStreams a c r st) = newResults (setStreams a c r st')"
  by (simp add: newResults_def solveC_def solveT_def setStreams_def)

lemma history_setStreams:
  "simulationHistory (setStreams a c r st) = simulationHistory st"
  by (simp add: setStreams_def)

lemma history_step_ok:
  "inputOk (a, c, r) \<Longrightarrow>
   simulationHistory (calculateBalance (setStreams a c r st))
     = slice_last 20 (simulationHistory st @ [resultOf (a, c, r)])"
  using solveOk_streams [of a c r st initialApp] newResults_streams [of a c r st initialApp]
  by (simp add: inputOk_def resultOf_def calculateBalance_ok history_setStreams)

lemma history_calculateBalance_le:
  "length (simulationHistory st) \<le> 20 \<Longrightarrow> length (simulationHistory (calculateBalance st)) \<le> 20"
  by (cases "solveOk st") (simp_all add: calculateBalance_ok length_slice_last history_failed)

lemma history_solves_le:
  "length (simulationHistory st) \<le> 20 \<Longrightarrow> length (simulationHistory (solves ins st)) \<le> 20"
proof (induction ins arbitrary: st)
  case Nil
  then show ?case by simp
next
  case (Cons i ins)
  obtain a c r where i: "i = (a, c, r)" by (cases i) auto
  from Cons.prems have "length (simulationHistory (calculateBalance (setStreams a c r st))) \<le> 20"
    by (intro history_calculateBalance_le) (simp add: history_setStreams)
  then show ?case
    unfolding i solves.simps by (rule Cons.IH)
qed

text \<open>
  After a run of successful solves the last 20 entries of the history are the last 20 of
  the old history followed by the new results, in the order of the solves.
\<close>

lemma history_solves_ok:
  "list_all inputOk ins \<Longrightarrow>
   slice_last 20 (simulationHistory (solves ins st))
     = slice_last 20 (simulationHistory st @ map resultOf ins)"
proof (induction ins arbitrary: st)
  case Nil
  then show ?case by simp
next
  case (Cons i ins)
  obtain a c r where i: "i = (a, c, r)" by (cases i) auto
  from Cons.prems have ok: "inputOk (a, c, r)" and rest: "list_all inputOk ins"
    by (simp_all add: i)
  have "slice_last 20 (simulationHistory (solves (i # ins) st))
          = slice_last 20 (simulationHistory (calculateBalance (setStreams a c r st)) @ map resultOf ins)"
    unfolding i solves.simps by (rule Cons.IH [OF rest])
  also have "\<dots> = slice_last 20 ((simulationHistory st @ [resultOf (a, c, r)]) @ map resultOf ins)"
    by (simp only: history_step_ok [OF ok] slice_last_append)
  finally show ?case by (simp add: i)
qed

lemma history_21:
  assumes "length ins = 21" "list_all inputOk ins"
  shows "simulationHistory (solves ins st) = map resultOf (tl ins)"
proof -
  obtain i rest where ins: "ins = i # rest" and len: "length rest = 20"
    using assms(1) by (cases ins) auto
  obtain a c r where i: "i = (a, c, r)" by (cases i) auto
  from assms(2) have ok: "inputOk (a, c, r)" and rest: "list_all inputOk rest"
    by (simp_all add: ins i)
  let ?st1 = "calculateBalance (setStreams a c r st)"
  have short: "length (simulationHistory ?st1) \<le> 20"
    by (simp add: history_step_ok [OF ok] length_slice_last)
  have "simulationHistory (solves ins st) = simulationHistory (solves rest ?st1)"
    by (simp add: ins i)
  also have "\<dots> = slice_last 20 (simulationHistory (solves rest ?st1))"
    by (simp add: slice_last_short history_solves_le [OF short])
  also have "\<dots> = slice_last 20 (simulationHistory ?st1 @ map resultOf rest)"
    by (rule history_solves_ok [OF rest])
  also have "\<dots> = map resultOf rest"
    using len by (simp add: slice_last_def)
  finally show ?thesis by (simp add: ins)
qed

text \<open>
  Claim C5. A failed solve leaves the history as it was and a successful one appends its
  result and keeps the last 20 entries. A history of at most 20 entries (it starts empty)
  has at most 20 entries after any sequence of solves, successful or not. After 21
  successful solves, from any state, the history is exactly the results of the solves 2
  to 21, in that order: the entry made by the 1st solve has been dropped and the entry
  made by the 21st is the last one. (Results are values here, so an entry is told from
  another by its position; two solves of the same streams store equal records.)
\<close>

theorem C5_history_bounded_fifo:
  "(\<not> solveOk st \<longrightarrow> simulationHistory (calculateBalance st) = simulationHistory st)
   \<and> (solveOk st \<longrightarrow>
        simulationHistory (calculateBalance st)
          = slice_last 20 (simulationHistory st @ [newResults st]))
   \<and> (length (simulationHistory st) \<le> 20 \<longrightarrow> length (simulationHistory (solves ins st)) \<le> 20)
   \<and> (length ins = 21 \<and> list_all inputOk ins \<longrightarrow>
        simulationHistory (solves ins st) = map resultOf (tl ins))"
proof (intro conjI impI)
  assume "\<not> solveOk st"
  then show "simulationHistory (calculateBalance st) = simulationHistory st"
    by (rule history_failed)
next
  assume "solveOk st"
  then show "simulationHistory (calculateBalance st)
          = slice_last 20 (simulationHistory st @ [newResults st])"
    by (simp add: calculateBalance_ok)
next
  assume "length (simulationHistory st) \<le> 20"
  then show "length (simulationHistory (solves ins st)) \<le> 20"
    by (rule history_solves_le)
next
  assume "length ins = 21 \<and> list_all inputOk ins"
  then show "simulationHistory (solves ins st) = map resultOf (tl ins)"
    by (simp add: history_21)
qed

text \<open>
  The iron-ore assays with a feed of \<open>n\<close> t/h, \<open>n\<close> from 1 to 1000: \<open>C\<close> is the rounded
  quotient of \<open>27 n\<close> by the double 59.7, which is not negative and less than \<open>n\<close>, so the
  solve succeeds.
\<close>

lemma inputOk_exampleInput:
  assumes "0 < n" "n \<le> 1000"
  shows "inputOk (exampleInput n)"
proof -
  define st where "st = setStreams
      \<lparr>vazao = Fin (real n), concentracao = lit 35.5, densidade = lit 3.8\<rparr>
      \<lparr>vazao = Fin 0, concentracao = lit 68.2, densidade = lit 4.8\<rparr>
      \<lparr>vazao = Fin 0, concentracao = lit 8.5, densidade = lit 2.9\<rparr> initialApp"
  define b :: real where "b = 4201014027406541 / 70368744177664"
  define x where "x = real n * 27 / b"
  have streams:
    "App.alimentacao st
       = \<lparr>vazao = Fin (real n), concentracao = Fin (71 / 2),
          densidade = Fin (4278419646001971 / 1125899906842624)\<rparr>"
    "App.concentrado st
       = \<lparr>vazao = Fin 0, concentracao = Fin (4799148352916685 / 70368744177664),
          densidade = Fin (5404319552844595 / 1125899906842624)\<rparr>"
    "App.rejeito st
       = \<lparr>vazao = Fin 0, concentracao = Fin (17 / 2),
          densidade = Fin (6530219459687219 / 2251799813685248)\<rparr>"
    by (simp_all add: st_def setStreams_def)
       (simp_all add: eval_simps rnd_eval [of "1 / 2 ^ 51" "- 51"] rnd_eval [of "1 / 2 ^ 50" "- 50"]
          rnd_eval [of "1 / 2 ^ 49" "- 49"] rnd_eval [of "1 / 2 ^ 47" "- 47"]
          rnd_eval [of "1 / 2 ^ 46" "- 46"])
  have n: "1 \<le> real n" "real n \<le> 1000"
    using assms by simp_all
  have valid: "newErrors st = []"
    using assms(1) by (simp add: newErrors_def streams)
  have "real n * 27 \<in> \<int>"
    by simp
  moreover have "\<bar>real n * 27\<bar> \<le> 2 ^ 53"
    using n by simp
  ultimately have p: "rnd (real n * 27) = Fin (real n * 27)"
    by (rule rnd_int)
  have C: "solveC st = rnd x"
    by (simp add: solveC_def streams eval_simps rnd_eval [of "1 / 2 ^ 47" "- 47"] p x_def b_def)
  have x0: "0 \<le> x"
    by (simp add: x_def b_def)
  have "x = real n * (27 / b)"
    by (simp add: x_def)
  also have "\<dots> \<le> real n * (46 / 100)"
    by (rule mult_left_mono) (simp_all add: b_def)
  finally have x1: "x \<le> real n * (46 / 100)" .
  have "real n * (46 / 100) \<le> huge / 2"
    using n huge_ge by simp
  with x1 have "x \<le> huge / 2"
    by simp
  from rnd_nonneg [OF x0 this] obtain y
    where y: "rnd x = Fin y" "0 \<le> y" "\<bar>y - x\<bar> \<le> x / 2 ^ 53 + 1 / (2 * scale)"
    by blast
  have e1: "1 / (2 * scale) \<le> 1 / 2"
    using scale_ge_one by (simp add: field_simps)
  have e2: "x / 2 ^ 53 \<le> x / 100"
    using x0 by (simp add: field_simps)
  from y(3) have "y - x \<le> x / 2 ^ 53 + 1 / (2 * scale)"
    by (simp only: abs_le_iff)
  with e1 e2 x1 n(1) have "y \<le> real n"
    by linarith
  then have T: "\<not> nlt (solveT st) (Fin 0)"
    unfolding solveT_def C y(1) by (simp add: streams nsub_def rnd_not_negative)
  have "\<not> nlt (solveC st) (Fin 0)"
    using y(2) by (simp add: C y(1))
  with valid T have "solveOk st"
    by (simp add: solveOk_def)
  then show ?thesis
    unfolding inputOk_def exampleInput_def prod.case st_def .
qed

lemma resultOf_exampleInput:
  "vazao (BalanceResults.alimentacao (resultOf (exampleInput n))) = Fin (real n)"
  by (simp add: resultOf_def exampleInput_def newResults_def Let_def setStreams_def)

text \<open>
  The theorem at the session of 21 solves with feed flow rates 1 to 21 t/h, started in
  the initial state: all succeed, the history holds the 20 results for 2 to 21 t/h, the
  result for 1 t/h is not among them and the result for 21 t/h is.
\<close>

theorem C5_history_bounded_fifo_witness:
  "length exampleSession = 21
   \<and> list_all inputOk exampleSession
   \<and> simulationHistory (solves exampleSession initialApp) = map resultOf (map exampleInput [2..<22])
   \<and> length (simulationHistory (solves exampleSession initialApp)) = 20
   \<and> resultOf (exampleInput 1) \<notin> set (simulationHistory (solves exampleSession initialApp))
   \<and> resultOf (exampleInput 21) \<in> set (simulationHistory (solves exampleSession initialApp))"
proof -
  have len: "length exampleSession = 21"
    by (simp add: exampleSession_def)
  have ok: "list_all inputOk exampleSession"
    by (simp add: exampleSession_def list_all_iff inputOk_exampleInput)
  have tl: "tl exampleSession = map exampleInput [2..<22]"
    by (simp add: exampleSession_def upt_conv_Cons [of "Suc 0"] eval_nat_numeral)
  from C5_history_bounded_fifo [of initialApp exampleSession] len ok
  have hist: "simulationHistory (solves exampleSession initialApp) = map resultOf (map exampleInput [2..<22])"
    by (simp only: tl)
  have absent: "resultOf (exampleInput 1) \<noteq> resultOf (exampleInput n)" if "2 \<le> n" for n
  proof
    assume "resultOf (exampleInput 1) = resultOf (exampleInput n)"
    then have "vazao (BalanceResults.alimentacao (resultOf (exampleInput 1)))
                 = vazao (BalanceResults.alimentacao (resultOf (exampleInput n)))"
      by simp
    with that show False
      by (simp add: resultOf_exampleInput)
  qed
  have "resultOf (exampleInput 1) \<notin> set (map resultOf (map exampleInput [2..<22]))"
    using absent by auto
  moreover have "resultOf (exampleInput 21) \<in> set (map resultOf (map exampleInput [2..<22]))"
    by (simp del: upt_Suc)
  ultimately show ?thesis
    using len ok by (simp add: hist del: upt_Suc)
qed

section \<open>Mass conservation\<close>


text \<open>
  The tailings flow rate is the rounded difference \<open>F - C\<close>. When neither flow rate is
  negative the sum \<open>C + T\<close> is within one rounding of \<open>F\<close>.
\<close>

lemma difference_bound:
  assumes T: "rnd (F - C) = Fin T" and C: "0 \<le> C" and T0: "0 \<le> T"
  shows "\<bar>C + T - F\<bar> \<le> \<bar>F\<bar> / 2 ^ 53 + 1 / scale"
proof -
  define d where "d = F - C"
  have e: "\<bar>T - d\<bar> \<le> \<bar>d\<bar> / 2 ^ 53 + 1 / (2 * scale)"
    using rnd_error [OF T [folded d_def]] .
  have s: "1 / (2 * scale) \<le> 1 / scale"
    by (simp add: field_simps)
  have s0: "0 \<le> 1 / scale"
    by simp
  have F0: "0 \<le> \<bar>F\<bar> / 2 ^ 53"
    by simp
  have eq: "\<bar>C + T - F\<bar> = \<bar>T - d\<bar>"
    by (simp add: d_def algebra_simps)
  show ?thesis
  proof (cases "0 \<le> d")
    case True
    with C have "\<bar>d\<bar> \<le> \<bar>F\<bar>"
      by (simp add: d_def)
    then have "\<bar>d\<bar> / 2 ^ 53 \<le> \<bar>F\<bar> / 2 ^ 53"
      by (simp add: divide_right_mono)
    with e s show ?thesis
      unfolding eq by linarith
  next
    case False
    then have "d \<le> 0" by simp
    from rnd_sign_neg [OF this] T have "T \<le> 0"
      by (auto simp: d_def)
    with T0 have "T = 0" by simp
    with e have "\<bar>d\<bar> \<le> \<bar>d\<bar> / 2 ^ 53 + 1 / (2 * scale)"
      by simp
    moreover have "\<bar>d\<bar> / 2 ^ 53 \<le> \<bar>d\<bar> / 2"
      by (simp add: field_simps)
    ultimately have "\<bar>d\<bar> / 2 \<le> 1 / (2 * scale)"
      by linarith
    then have "\<bar>d\<bar> \<le> 1 / scale"
      by (simp add: field_simps)
    with \<open>T = 0\<close> F0 show ?thesis
      unfolding eq by simp
  qed
qed

text \<open>
  Claim C1, as the code has it. Non-zero fields and ordered assays do not make the solve
  succeed, not even with a positive feed flow rate: where the feed assay is just below the
  concentrate assay, \<open>C\<close> can round above \<open>F\<close>, and the physical check rejects the
  input. Whenever the solve succeeds on a finite feed flow rate \<open>F\<close>, it stores a result
  that keeps the feed as it was given and whose concentrate and tailings flow rates \<open>C\<close>
  and \<open>T\<close>, when finite, are not negative and add up to \<open>F\<close> within the floating-point
  tolerance of the one rounded subtraction \<open>T = F - C\<close>:
  \<open>|C + T - F| <= |F| / 2^53 + 2^-1074\<close>.
\<close>

theorem C1_mass_conservation:
  assumes ok: "solveOk st" and F: "vazao (App.alimentacao st) = Fin F"
  shows "\<exists>r. App.results (calculateBalance st) = Some r
           \<and> errors (calculateBalance st) = []
           \<and> BalanceResults.alimentacao r = App.alimentacao st
           \<and> (\<forall>C T. vazao (BalanceResults.concentrado r) = Fin C
                    \<and> vazao (BalanceResults.rejeito r) = Fin T
                 \<longrightarrow> 0 \<le> C \<and> 0 \<le> T \<and> \<bar>C + T - F\<bar> \<le> \<bar>F\<bar> / 2 ^ 53 + 1 / scale)"
proof -
  have flows: "vazao (BalanceResults.concentrado (newResults st)) = solveC st"
    "vazao (BalanceResults.rejeito (newResults st)) = solveT st"
    "BalanceResults.alimentacao (newResults st) = App.alimentacao st"
    by (simp_all add: newResults_def Let_def)
  have "0 \<le> C \<and> 0 \<le> T \<and> \<bar>C + T - F\<bar> \<le> \<bar>F\<bar> / 2 ^ 53 + 1 / scale"
    if CT: "solveC st = Fin C" "solveT st = Fin T" for C T
  proof -
    from ok CT have pos: "0 \<le> C" "0 \<le> T"
      by (simp_all add: solveOk_def not_less)
    from CT(2) have "rnd (F - C) = Fin T"
      by (simp add: solveT_def F CT(1) nsub_def)
    from difference_bound [OF this pos] pos show ?thesis
      by simp
  qed
  then show ?thesis
    by (simp add: calculateBalance_ok [OF ok] flows)
qed

text \<open>
  The theorem at the iron-ore example: the two flow rates stored are doubles whose sum is
  100.
\<close>

theorem C1_mass_conservation_witness:
  "solveOk exampleIronOre
   \<and> vazao (App.alimentacao exampleIronOre) = Fin 100
   \<and> App.results (calculateBalance exampleIronOre) = Some (newResults exampleIronOre)
   \<and> errors (calculateBalance exampleIronOre) = []
   \<and> vazao (BalanceResults.concentrado (newResults exampleIronOre))
       = Fin (6365012036170613 / 140737488355328)
   \<and> vazao (BalanceResults.rejeito (newResults exampleIronOre))
       = Fin (7708736799362187 / 140737488355328)
   \<and> \<bar>6365012036170613 / 140737488355328 + 7708736799362187 / 140737488355328 - 100\<bar>
       \<le> \<bar>100\<bar> / 2 ^ 53 + 1 / scale"
proof -
  have F: "vazao (App.alimentacao exampleIronOre) = Fin 100"
    by (simp add: exampleIronOre_streams)
  from C1_mass_conservation [OF exampleIronOre_ok F]
  obtain r where r: "App.results (calculateBalance exampleIronOre) = Some r"
    "errors (calculateBalance exampleIronOre) = []"
    "\<forall>C T. vazao (BalanceResults.concentrado r) = Fin C
            \<and> vazao (BalanceResults.rejeito r) = Fin T
         \<longrightarrow> 0 \<le> C \<and> 0 \<le> T \<and> \<bar>C + T - 100\<bar> \<le> \<bar>100\<bar> / 2 ^ 53 + 1 / scale"
    by blast
  from r(1) have eq: "r = newResults exampleIronOre"
    by (simp add: exampleIronOre_solved)
  from r(3) [unfolded eq, THEN spec, THEN spec, THEN mp, OF conjI,
      OF exampleIronOre_values(1) exampleIronOre_values(2)]
  have "\<bar>6365012036170613 / 140737488355328 + 7708736799362187 / 140737488355328 - 100\<bar>
       \<le> \<bar>100\<bar> / 2 ^ 53 + 1 / scale"
    by blast
  with r(1,2) show ?thesis
    unfolding eq by (simp only: exampleIronOre_ok F exampleIronOre_values simp_thms)
qed

text \<open>
  The claim as it is written fails at a feed of 10 t/h at 60.79999999999999 with a
  concentrate assay of 60.8 and a tailings assay of 9.2: every field is non-zero and the
  assays are ordered; the differences \<open>f - t\<close> and \<open>c - t\<close> round to the same double,
  \<open>F * (f - t)\<close> rounds to 516, \<open>C\<close> is 10.000000000000002 and \<open>T = -2^-49\<close>, and the solve
  stores no result.
\<close>

theorem C1_rounding_counterexample:
  "truthy (vazao (App.alimentacao exampleRoundedAbove))
   \<and> truthy (concentracao (App.alimentacao exampleRoundedAbove))
   \<and> truthy (densidade (App.alimentacao exampleRoundedAbove))
   \<and> truthy (concentracao (App.concentrado exampleRoundedAbove))
   \<and> truthy (densidade (App.concentrado exampleRoundedAbove))
   \<and> truthy (concentracao (App.rejeito exampleRoundedAbove))
   \<and> truthy (densidade (App.rejeito exampleRoundedAbove))
   \<and> nlt (Fin 0) (vazao (App.alimentacao exampleRoundedAbove))
   \<and> nlt (concentracao (App.alimentacao exampleRoundedAbove))
         (concentracao (App.concentrado exampleRoundedAbove))
   \<and> nlt (concentracao (App.rejeito exampleRoundedAbove))
         (concentracao (App.alimentacao exampleRoundedAbove))
   \<and> solveC exampleRoundedAbove = Fin (5629499534213121 / 562949953421312)
   \<and> solveT exampleRoundedAbove = Fin (- (1 / 562949953421312))
   \<and> errors (calculateBalance exampleRoundedAbove) = [DadosInconsistentes]
   \<and> App.results (calculateBalance exampleRoundedAbove) = None"
proof -
  have streams:
    "App.alimentacao exampleRoundedAbove
       = \<lparr>vazao = Fin 10, concentracao = Fin (8556839292003941 / 140737488355328),
          densidade = Fin 1\<rparr>"
    "App.concentrado exampleRoundedAbove
       = \<lparr>vazao = Fin 0, concentracao = Fin (4278419646001971 / 70368744177664),
          densidade = Fin 1\<rparr>"
    "App.rejeito exampleRoundedAbove
       = \<lparr>vazao = Fin 0, concentracao = Fin (2589569785738035 / 281474976710656),
          densidade = Fin 1\<rparr>"
    "App.results exampleRoundedAbove = None"
    by (simp_all add: exampleRoundedAbove_def setStreams_def initialApp_def)
       (simp_all add: eval_simps rnd_eval [of "1 / 2 ^ 49" "- 49"] rnd_eval [of "1 / 2 ^ 47" "- 47"])
  have valid: "newErrors exampleRoundedAbove = []"
    by (simp add: newErrors_def streams)
  have C: "solveC exampleRoundedAbove = Fin (5629499534213121 / 562949953421312)"
    by (simp add: solveC_def streams eval_simps rnd_eval [of "1 / 2 ^ 49" "- 49"]
          rnd_eval [of "1 / 2 ^ 47" "- 47"] rnd_eval [of "1 / 2 ^ 43" "- 43"])
  have T: "solveT exampleRoundedAbove = Fin (- (1 / 562949953421312))"
    by (simp add: solveT_def C streams eval_simps rnd_eval [of "1 / 2 ^ 101" "- 101"])
  have "calculateBalance exampleRoundedAbove
          = exampleRoundedAbove\<lparr>errors := [DadosInconsistentes]\<rparr>"
    by (rule calculateBalance_nonphysical [OF valid]) (simp add: T)
  then show ?thesis
    by (simp add: streams C T)
qed

text \<open>
  Two more inputs that meet the hypotheses of the claim and are rejected: a feed of -100
  t/h with assays 30 > 20 > 10, where \<open>C = -50\<close>; and a feed of \<open>2^1023\<close> t/h with assays
  50 > 30 > 10, where the product \<open>F * 20\<close> overflows, \<open>C\<close> is \<open>+Infinity\<close> and \<open>T\<close> is
  \<open>-Infinity\<close>.
\<close>

lemma negative_feed_rejected:
  "newErrors exampleNegativeFeed = []
   \<and> solveC exampleNegativeFeed = Fin (- 50)
   \<and> calculateBalance exampleNegativeFeed = exampleNegativeFeed\<lparr>errors := [DadosInconsistentes]\<rparr>"
proof -
  have streams:
    "App.alimentacao exampleNegativeFeed = \<lparr>vazao = Fin (- 100), concentracao = Fin 20, densidade = Fin 1\<rparr>"
    "App.concentrado exampleNegativeFeed = \<lparr>vazao = Fin 0, concentracao = Fin 30, densidade = Fin 1\<rparr>"
    "App.rejeito exampleNegativeFeed = \<lparr>vazao = Fin 0, concentracao = Fin 10, densidade = Fin 1\<rparr>"
    by (simp_all add: exampleNegativeFeed_def setStreams_def initialApp_def)
  have valid: "newErrors exampleNegativeFeed = []"
    by (simp add: newErrors_def streams)
  have C: "solveC exampleNegativeFeed = Fin (- 50)"
    by (simp add: solveC_def streams eval_simps)
  have "calculateBalance exampleNegativeFeed = exampleNegativeFeed\<lparr>errors := [DadosInconsistentes]\<rparr>"
    by (rule calculateBalance_nonphysical [OF valid]) (simp add: C)
  with valid C show ?thesis
    by simp
qed

lemma huge_feed_rejected:
  "newErrors exampleHugeFeed = []
   \<and> nlt (Fin 0) (vazao (App.alimentacao exampleHugeFeed))
   \<and> solveC exampleHugeFeed = PInf
   \<and> solveT exampleHugeFeed = NInf
   \<and> calculateBalance exampleHugeFeed = exampleHugeFeed\<lparr>errors := [DadosInconsistentes]\<rparr>"
proof -
  have streams:
    "App.alimentacao exampleHugeFeed = \<lparr>vazao = Fin (2 ^ 1023), concentracao = Fin 30, densidade = Fin 1\<rparr>"
    "App.concentrado exampleHugeFeed = \<lparr>vazao = Fin 0, concentracao = Fin 50, densidade = Fin 1\<rparr>"
    "App.rejeito exampleHugeFeed = \<lparr>vazao = Fin 0, concentracao = Fin 10, densidade = Fin 1\<rparr>"
    by (simp_all add: exampleHugeFeed_def setStreams_def)
  have valid: "newErrors exampleHugeFeed = []"
    by (simp add: newErrors_def streams)
  have "rnd (2 ^ 1023 * 20) = PInf"
    using rnd_overflow [of "2 ^ 1023 * 20"] by (simp add: huge_def)
  then have C: "solveC exampleHugeFeed = PInf"
    by (simp add: solveC_def streams eval_simps)
  have T: "solveT exampleHugeFeed = NInf"
    by (simp add: solveT_def C streams nsub_def)
  have "calculateBalance exampleHugeFeed = exampleHugeFeed\<lparr>errors := [DadosInconsistentes]\<rparr>"
    by (rule calculateBalance_nonphysical [OF valid]) (simp add: T)
  with valid C T show ?thesis
    by (simp add: streams)
qed

section \<open>Equal concentrate and tailings assays\<close>





section \<open>The profit margin of the economic analysis\<close>

lemma nmul_not_finite: "\<not> isFinite x \<Longrightarrow> \<not> isFinite (nmul x (Fin 100))"
  by (cases x) simp_all

lemma ndiv_zero_not_finite: "\<not> isFinite (ndiv x (Fin 0))"
  by (cases x) simp_all

text \<open>
  Claim C8, as the code has it. The only guard of the handler is on the balance and on the
  price: with no balance or a zero concentrate price it returns at once and the stored
  result stays what it was; no condition of its own is raised for a zero revenue. With a
  balance, a non-zero price and an annual revenue of zero the handler stores a result, and
  the profit margin in it, a quotient by zero, is NaN or an infinity.
\<close>

theorem C8_zero_price_guard:
  "(res = None \<or> \<not> truthy (precoConcetrado ed)
      \<longrightarrow> calculateEconomics_analysis res ed prev = prev)
   \<and> (res = Some r \<and> truthy (precoConcetrado ed) \<and> receitaAnual_analysis r ed = Fin 0
      \<longrightarrow> (\<exists>er. calculateEconomics_analysis res ed prev = Some er
               \<and> \<not> isFinite (margemLucro er)))"
proof (intro conjI impI)
  assume "res = None \<or> \<not> truthy (precoConcetrado ed)"
  then show "calculateEconomics_analysis res ed prev = prev"
    by (auto simp: calculateEconomics_analysis_def split: option.splits)
next
  assume "res = Some r \<and> truthy (precoConcetrado ed) \<and> receitaAnual_analysis r ed = Fin 0"
  then show "\<exists>er. calculateEconomics_analysis res ed prev = Some er \<and> \<not> isFinite (margemLucro er)"
    by (simp add: calculateEconomics_analysis_def Let_def nmul_not_finite ndiv_zero_not_finite)
qed

lemma exampleIronOre_fields:
  "vazao (BalanceResults.alimentacao (newResults exampleIronOre)) = Fin 100"
  "concentracao (BalanceResults.rejeito (newResults exampleIronOre)) = Fin (17 / 2)"
  by (simp_all add: newResults_def Let_def exampleIronOre_streams)

lemma exampleZeroHours_revenue:
  "receitaAnual_analysis (newResults exampleIronOre) exampleZeroHours = Fin 0"
  by (simp add: receitaAnual_analysis_def exampleZeroHours_def exampleIronOre_values)

text \<open>
  The theorem at the iron-ore balance: with the price set to 0 nothing is stored; with
  the price 1500 and zero operating hours the revenue is 0 and the margin stored is not a
  finite number.
\<close>

theorem C8_zero_price_guard_witness:
  "calculateEconomics_analysis (Some (newResults exampleIronOre))
       (exampleZeroHours\<lparr>precoConcetrado := Fin 0\<rparr>) None = None
   \<and> truthy (precoConcetrado exampleZeroHours)
   \<and> receitaAnual_analysis (newResults exampleIronOre) exampleZeroHours = Fin 0
   \<and> (\<exists>er. calculateEconomics_analysis (Some (newResults exampleIronOre)) exampleZeroHours None
                 = Some er
           \<and> \<not> isFinite (margemLucro er))"
proof -
  have price: "truthy (precoConcetrado exampleZeroHours)"
    by (simp add: exampleZeroHours_def)
  note a = C8_zero_price_guard [of "Some (newResults exampleIronOre)"
      "exampleZeroHours\<lparr>precoConcetrado := Fin 0\<rparr>" None]
  note b = C8_zero_price_guard [of "Some (newResults exampleIronOre)" exampleZeroHours
      None "newResults exampleIronOre"]
  from a have "calculateEconomics_analysis (Some (newResults exampleIronOre))
       (exampleZeroHours\<lparr>precoConcetrado := Fin 0\<rparr>) None = None"
    by simp
  moreover from b price exampleZeroHours_revenue
  have "\<exists>er. calculateEconomics_analysis (Some (newResults exampleIronOre)) exampleZeroHours None
                 = Some er
             \<and> \<not> isFinite (margemLucro er)"
    by blast
  ultimately show ?thesis
    using price exampleZeroHours_revenue by simp
qed

text \<open>
  The claim as it is written fails for the iron-ore balance with a price of 1500 and zero
  operating hours: the annual revenue is 0, the handler stores a result, and its profit
  margin is \<open>(0 / 0) * 100\<close>, NaN.
\<close>

theorem C8_zero_hours_counterexample:
  "precoConcetrado exampleZeroHours = Fin 1500
   \<and> horasOperacao exampleZeroHours = Fin 0
   \<and> receitaAnual_analysis (newResults exampleIronOre) exampleZeroHours = Fin 0
   \<and> map_option margemLucro
        (calculateEconomics_analysis (Some (newResults exampleIronOre)) exampleZeroHours None)
       = Some NaN"
  by (simp add: calculateEconomics_analysis_def receitaAnual_analysis_def Let_def
        exampleZeroHours_def exampleIronOre_values exampleIronOre_fields eval_simps
        rnd_eval [of "1 / 2 ^ 44" "- 44"] rnd_eval [of "1 / 2 ^ 50" "- 50"])

section \<open>The grid search\<close>

lemma candidates_list:
  "candidates = [10, 12, 14, 16, 18, 20, 22, 24, 26, 28, 30, 32, 34, 36, 38, 40]"
  by (simp add: candidates_def upt_conv_Cons)





lemma nlt_nle: "nlt a b \<Longrightarrow> nle a b"
  by (cases a; cases b) simp_all










lemma exampleClamp_state:
  "App.alimentacao exampleClamp = \<lparr>vazao = Fin 100, concentracao = Fin 20, densidade = Fin 3\<rparr>"
  "concentracao (App.concentrado exampleClamp) = Fin 50"
  "concentracao (App.rejeito exampleClamp) = Fin 35"
  "minGrade (optimizationParams exampleClamp) = Fin 60"
  "nadd (targetRecovery (optimizationParams exampleClamp)) (Fin 5) = Fin 35"
  by (simp_all add: exampleClamp_def setStreams_def initialApp_def eval_simps)

lemma exampleClamp_effective: "effectiveConcentrado exampleClamp = Fin 50"
  by (simp add: effectiveConcentrado_def exampleClamp_state)

lemma exampleClamp_ordered:
  "k \<in> set candidates \<Longrightarrow> ordered exampleClamp k \<longleftrightarrow> 36 \<le> k"
  by (auto simp: candidates_list ordered_def exampleClamp_effective exampleClamp_state)









section \<open>Range of the recovery\<close>

















text \<open>
  Below the normal range the bound is lost: at a feed of \<open>3 * 2^-1074\<close> t/h with assays
  50 > 30 > 10 the quotient \<open>C = 1.5 * 2^-1074\<close> rounds to \<open>2 * 2^-1074\<close>, and the recovery
  stored is about 111.
\<close>

lemma subnormal_recovery:
  "solveOk exampleSubnormal
   \<and> solveC exampleSubnormal = Fin (2 / 2 ^ 1074)
   \<and> recuperacao (newResults exampleSubnormal) = Fin (3909374676536889 / 35184372088832)"
proof -
  have streams:
    "App.alimentacao exampleSubnormal
       = \<lparr>vazao = Fin (3 / 2 ^ 1074), concentracao = Fin 30, densidade = Fin 1\<rparr>"
    "App.concentrado exampleSubnormal = \<lparr>vazao = Fin 0, concentracao = Fin 50, densidade = Fin 1\<rparr>"
    "App.rejeito exampleSubnormal = \<lparr>vazao = Fin 0, concentracao = Fin 10, densidade = Fin 1\<rparr>"
    by (simp_all add: exampleSubnormal_def setStreams_def)
  have C: "solveC exampleSubnormal = Fin (2 / 2 ^ 1074)"
    by (simp add: solveC_def streams eval_simps rnd_eval [of "1 / 2 ^ 1074" "- 1074"])
  have T: "solveT exampleSubnormal = Fin (1 / 2 ^ 1074)"
    by (simp add: solveT_def C streams eval_simps rnd_eval [of "1 / 2 ^ 1074" "- 1074"])
  have ok: "solveOk exampleSubnormal"
    by (simp add: solveOk_def newErrors_def C T streams)
  have "recuperacao (newResults exampleSubnormal) = Fin (3909374676536889 / 35184372088832)"
    by (simp add: newResults_def Let_def C streams eval_simps
          rnd_eval [of "1 / 2 ^ 1074" "- 1074"] rnd_eval [of "1 / 2 ^ 52" "- 52"]
          rnd_eval [of "1 / 2 ^ 46" "- 46"])
  with ok C show ?thesis
    by simp
qed

section \<open>The approximate internal rate of return\<close>





































































end
